theory Spec2Isabelle
  imports Complex_Main
begin

section \<open>Strings and JavaScript helpers\<close>

text \<open>
  A JavaScript string is modelled as the \<^typ>\<open>string\<close> of its UTF-8 bytes. Every separator
  and prefix the program looks for (\<open>;\<close>, \<open>:\<close>, \<open>,\<close>, \<open>image/\<close>) is ASCII, and an ASCII
  byte never occurs inside the encoding of another character, so splitting and prefix tests
  give the same result on the bytes as on the UTF-16 code units.
\<close>

text \<open>\<open>String.prototype.split\<close> with a one-character separator and no limit: the result is
  never empty, and the empty string gives one empty segment.\<close>

fun js_split :: "char \<Rightarrow> string \<Rightarrow> string list" where
  "js_split sep [] = [[]]"
| "js_split sep (c # cs) =
     (if c = sep then [] # js_split sep cs
      else (case js_split sep cs of
              [] \<Rightarrow> [[c]]
            | seg # segs \<Rightarrow> (c # seg) # segs))"

text \<open>Array indexing \<open>xs[i]\<close>: \<open>undefined\<close> (here \<open>None\<close>) out of range.\<close>

definition js_index :: "'a list \<Rightarrow> nat \<Rightarrow> 'a option" where
  "js_index xs i = (if i < length xs then Some (xs ! i) else None)"

text \<open>\<open>Array.prototype.join\<close> on an array of strings.\<close>

fun js_join :: "string \<Rightarrow> string list \<Rightarrow> string" where
  "js_join sep [] = []"
| "js_join sep [x] = x"
| "js_join sep (x # y # ys) = x @ sep @ js_join sep (y # ys)"

text \<open>\<open>Array.prototype.includes\<close> on an array of strings, for an argument that is a string or
  \<open>undefined\<close>; \<open>undefined\<close> is never an element of an array of strings.\<close>

definition js_includes :: "string list \<Rightarrow> string option \<Rightarrow> bool" where
  "js_includes xs v = (case v of None \<Rightarrow> False | Some s \<Rightarrow> s \<in> set xs)"

text \<open>A value interpolated into a template literal: \<open>undefined\<close> prints as that word.\<close>

definition js_template :: "string option \<Rightarrow> string" where
  "js_template v = (case v of None \<Rightarrow> ''undefined'' | Some s \<Rightarrow> s)"

text \<open>\<open>String.prototype.startsWith\<close>.\<close>

fun startsWith :: "string \<Rightarrow> string \<Rightarrow> bool" where
  "startsWith s [] = True"
| "startsWith [] (p # ps) = False"
| "startsWith (c # cs) (p # ps) = (c = p \<and> startsWith cs ps)"

text \<open>The constant of both \<open>route.ts\<close> and \<open>page.tsx\<close>.\<close>

definition SUPPORTED_FORMATS :: "string list" where
  "SUPPORTED_FORMATS = [''image/png'', ''image/jpeg'', ''image/gif'', ''image/webp'']"

section \<open>The analysis relay: \<open>POST /api/analyze\<close>\<close>

subsection \<open>Values\<close>

text \<open>The value \<open>request.json()\<close> resolves to. A number carries the value of the parsed
  double; the handler only ever tests it for being zero. An object is the list of its own
  properties, one entry for each key.\<close>

datatype json =
    JNull
  | JBool bool
  | JNum rat
  | JStr string
  | JArr "json list"
  | JObj "(string \<times> json) list"

text \<open>What the \<open>try\<close> block can throw, as the \<open>catch\<close> receives it.\<close>

datatype thrown =
    SyntaxError
  | TypeError
  | ApiError string

text \<open>The request handed to \<open>openai.chat.completions.create\<close>.\<close>

datatype content_part =
    TextPart string
  | ImageUrlPart string

record chat_message =
  role :: string
  content :: "content_part list"

record chat_request =
  model :: string
  messages :: "chat_message list"
  max_tokens :: nat

text \<open>How the external call ends: it rejects with a cause, or resolves to a completion, of
  which the handler reads \<open>choices[i].message.content\<close> (a string or \<open>null\<close>).\<close>

datatype call_outcome =
    Rejects string
  | Resolves "string option list"

record http_response =
  status :: nat
  body :: json

text \<open>What one invocation of the handler does: its response, the requests it sent to the
  external model, in order, and what it wrote with \<open>console.error\<close>.\<close>

record outcome =
  response :: http_response
  calls :: "chat_request list"
  logged :: "thrown list"

subsection \<open>The handler\<close>

text \<open>\<open>const { image } = v\<close>: destructuring \<open>null\<close> throws; a property that is not there reads
  as \<open>undefined\<close>, also on an array, a string, a number and a boolean.\<close>

fun destructure_image :: "json \<Rightarrow> thrown + json option" where
  "destructure_image JNull = Inl TypeError"
| "destructure_image (JObj props) = Inr (map_of props ''image'')"
| "destructure_image v = Inr None"

text \<open>JavaScript truthiness of a property read from parsed JSON.\<close>

fun truthy :: "json option \<Rightarrow> bool" where
  "truthy None = False"
| "truthy (Some JNull) = False"
| "truthy (Some (JBool b)) = b"
| "truthy (Some (JNum n)) = (n \<noteq> 0)"
| "truthy (Some (JStr s)) = (s \<noteq> [])"
| "truthy (Some (JArr xs)) = True"
| "truthy (Some (JObj props)) = True"

text \<open>\<open>image.split(';')[0].split(':')[1]\<close>; the first index is always in range.\<close>

definition mimeType_of :: "string \<Rightarrow> string option" where
  "mimeType_of image' = js_index (js_split CHR '':'' (hd (js_split CHR '';'' image'))) 1"

text \<open>\<open>image.split(',')[1]\<close>.\<close>

definition base64Image_of :: "string \<Rightarrow> string option" where
  "base64Image_of image' = js_index (js_split CHR '','' image') 1"

definition prompt :: string where
  "prompt = ''Analyze this product image and tell me if it's vegan. Consider ingredients, certifications, and any visible labels. Respond with a clear 'Yes' or 'No' followed by a brief explanation. If you are not able to read the image content please be clear about it and the only thing you should say it's to take the photo again. The answer should always be in brazilian portuguese''"

definition analysis_request :: "string option \<Rightarrow> string option \<Rightarrow> chat_request" where
  "analysis_request mimeType base64Image =
     \<lparr>model = ''gpt-4o'',
      messages =
        [\<lparr>role = ''user'',
          content =
            [TextPart prompt,
             ImageUrlPart (''data:'' @ js_template mimeType @ '';base64,'' @ js_template base64Image)]\<rparr>],
      max_tokens = 300\<rparr>"

definition json_response :: "json \<Rightarrow> nat \<Rightarrow> http_response" where
  "json_response b s = \<lparr>status = s, body = b\<rparr>"

definition unsupported_message :: string where
  "unsupported_message =
     ''Unsupported image format. Please use one of: '' @ js_join '', '' SUPPORTED_FORMATS"

text \<open>The body of the \<open>try\<close> block: what it returns or throws, and the external requests it
  made on the way. The first argument is the external model.\<close>

definition try_block ::
  "(chat_request \<Rightarrow> call_outcome) \<Rightarrow> json option \<Rightarrow> (thrown + http_response) \<times> chat_request list"
where
  "try_block openai request_json =
     (case request_json of
        None \<Rightarrow> (Inl SyntaxError, [])
      | Some v \<Rightarrow>
          (case destructure_image v of
             Inl e \<Rightarrow> (Inl e, [])
           | Inr image' \<Rightarrow>
               if \<not> truthy image' then
                 (Inr (json_response (JObj [(''error'', JStr ''No image provided'')]) 400), [])
               else
                 (case image' of
                    Some (JStr s) \<Rightarrow>
                      (let mimeType = mimeType_of s in
                       if \<not> js_includes SUPPORTED_FORMATS mimeType then
                         (Inr (json_response (JObj [(''error'', JStr unsupported_message)]) 400), [])
                       else
                         (let base64Image = base64Image_of s;
                              req = analysis_request mimeType base64Image
                          in case openai req of
                               Rejects cause \<Rightarrow> (Inl (ApiError cause), [req])
                             | Resolves choices \<Rightarrow>
                                 (case choices of
                                    [] \<Rightarrow> (Inl TypeError, [req])
                                  | c # _ \<Rightarrow>
                                      (Inr (json_response
                                              (JObj [(''result'', case c of None \<Rightarrow> JNull | Some t \<Rightarrow> JStr t)])
                                              200),
                                       [req]))))
                  | _ \<Rightarrow> (Inl TypeError, []))))"

text \<open>\<open>POST\<close>: the \<open>try\<close> block under its \<open>catch\<close>, which logs what was thrown and answers
  with the fixed 500 response.\<close>

definition POST :: "(chat_request \<Rightarrow> call_outcome) \<Rightarrow> json option \<Rightarrow> outcome" where
  "POST openai request_json =
     (case try_block openai request_json of
        (Inr r, cs) \<Rightarrow> \<lparr>response = r, calls = cs, logged = []\<rparr>
      | (Inl e, cs) \<Rightarrow>
          \<lparr>response = json_response (JObj [(''error'', JStr ''Failed to analyze image'')]) 500,
           calls = cs,
           logged = [e]\<rparr>)"

section \<open>The media acquisition component: \<open>VeganAnalyzer\<close> in \<open>page.tsx\<close>\<close>

subsection \<open>Messages\<close>

text \<open>The accented letters of the Portuguese messages, in UTF-8.\<close>

definition a_tilde :: string where "a_tilde = [CHR 0xC3, CHR 0xA3]"
definition a_acute :: string where "a_acute = [CHR 0xC3, CHR 0xA1]"
definition a_circ :: string where "a_circ = [CHR 0xC3, CHR 0xA2]"
definition e_circ :: string where "e_circ = [CHR 0xC3, CHR 0xAA]"
definition i_acute :: string where "i_acute = [CHR 0xC3, CHR 0xAD]"
definition o_tilde :: string where "o_tilde = [CHR 0xC3, CHR 0xB5]"

definition msg_api_unavailable :: string where
  "msg_api_unavailable =
     ''API de c'' @ a_circ @ ''mera n'' @ a_tilde @ ''o dispon'' @ i_acute @ ''vel neste navegador''"

definition msg_no_video_element :: string where
  "msg_no_video_element =
     ''Elemento de v'' @ i_acute @ ''deo n'' @ a_tilde @ ''o encontrado''"

definition msg_camera_prefix :: string where
  "msg_camera_prefix =
     ''N'' @ a_tilde @ ''o foi poss'' @ i_acute @ ''vel acessar a c'' @ a_circ @ ''mera. ''"

definition msg_not_allowed :: string where
  "msg_not_allowed =
     ''Por favor, certifique-se de que voc'' @ e_circ @ '' concedeu permiss'' @ o_tilde
       @ ''es para a c'' @ a_circ @ ''mera.''"

definition msg_not_found :: string where
  "msg_not_found = ''Nenhuma c'' @ a_circ @ ''mera encontrada no seu dispositivo.''"

definition msg_not_readable :: string where
  "msg_not_readable =
     ''A c'' @ a_circ @ ''mera j'' @ a_acute @ '' est'' @ a_acute
       @ '' em uso por outro aplicativo.''"

definition msg_camera_not_ready :: string where
  "msg_camera_not_ready =
     ''C'' @ a_circ @ ''mera n'' @ a_tilde @ ''o est'' @ a_acute @ '' pronta''"

definition msg_no_canvas_context :: string where
  "msg_no_canvas_context =
     ''N'' @ a_tilde @ ''o foi poss'' @ i_acute @ ''vel obter o contexto do canvas''"

definition msg_capture_failed :: string where
  "msg_capture_failed = ''Falha ao capturar foto: ''"

definition msg_not_an_image :: string where
  "msg_not_an_image = ''Por favor, envie um arquivo de imagem''"

definition msg_unsupported_format :: string where
  "msg_unsupported_format =
     ''Formato de imagem n'' @ a_tilde @ ''o suportado. Por favor, use um dos seguintes: ''
       @ js_join '', '' SUPPORTED_FORMATS"

subsection \<open>The platform\<close>

text \<open>A thrown or rejected value, as far as \<open>startCamera\<close> reads it: its \<open>name\<close> and its
  \<open>message\<close>. \<open>new Error(m)\<close> has the name \<open>Error\<close>.\<close>

datatype js_error = JsError (err_name: string) (err_message: string)

definition new_Error :: "string \<Rightarrow> js_error" where
  "new_Error m = JsError ''Error'' m"

text \<open>A \<open>MediaStream\<close> is known by its identity.\<close>

type_synonym stream = nat

text \<open>A decoded picture: a video frame with \<open>videoWidth\<close> and \<open>videoHeight\<close>, or a loaded
  image with its natural \<open>width\<close> and \<open>height\<close>.\<close>

record picture =
  pic_width :: nat
  pic_height :: nat
  pic_pixels :: "nat list"

text \<open>An off-screen canvas: its size and what has been drawn on it at the origin, in order.\<close>

record canvas =
  canvas_width :: nat
  canvas_height :: nat
  canvas_drawn :: "picture list"

definition createCanvas :: "nat \<Rightarrow> nat \<Rightarrow> canvas" where
  "createCanvas w h = \<lparr>canvas_width = w, canvas_height = h, canvas_drawn = []\<rparr>"

definition drawImage :: "picture \<Rightarrow> canvas \<Rightarrow> canvas" where
  "drawImage p c = c\<lparr>canvas_drawn := canvas_drawn c @ [p]\<rparr>"

text \<open>\<open>canvas.toDataURL('image/png')\<close>, as the HTML standard has it: a canvas with no pixels
  gives \<open>data:,\<close>; any other gives a PNG data URL, PNG being the one format every browser
  must encode. The argument \<open>png\<close> is the browser's encoder, from a canvas to the base64
  text of a PNG file. \<open>drawImage\<close> and \<open>toDataURL\<close> are taken not to throw: what is drawn
  here, a camera frame or a picture from a data URL, does not taint the canvas.\<close>

definition toDataURL_png :: "(canvas \<Rightarrow> string) \<Rightarrow> canvas \<Rightarrow> string" where
  "toDataURL_png png c =
     (if canvas_width c = 0 \<or> canvas_height c = 0 then ''data:,''
      else ''data:image/png;base64,'' @ png c)"

text \<open>\<open>startCamera\<close> is asynchronous and waits twice: for \<open>getUserMedia\<close>, and for the
  promise that \<open>loadedmetadata\<close> and \<open>video.play()\<close> resolve and \<open>video.onerror\<close> rejects.
  A call in flight is at one of the two, and in the second it holds the stream it was
  given.\<close>

datatype start_stage =
    AwaitStream
  | AwaitVideo stream

text \<open>How the platform settles the promise a call is waiting for.\<close>

datatype settlement =
    StreamResolved stream
  | VideoResolved
  | Rejected js_error

text \<open>The calls to the file reader and to the canvas, recorded in the order they are made.\<close>

datatype platform_call =
    ReadAsDataURL
  | LoadImage
  | CreateCanvas nat nat
  | DrawImage
  | ToDataURL

text \<open>The selected file, of which only the declared type is read before the platform decodes
  it.\<close>

record upload_file =
  file_type :: string

subsection \<open>State\<close>

text \<open>
  The six \<open>useState\<close> cells and the two refs the camera code uses, together with the one
  piece of platform state the component changes: \<open>running\<close>, the streams that still have
  a track that was not stopped. \<open>videoRef\<close> is \<open>None\<close> while no \<open>video\<close> element is
  mounted, and otherwise holds the element's \<open>srcObject\<close>. Console output is not part of
  the state.
\<close>

record app =
  image_st :: "string option"
  loading :: bool
  result :: "string option"
  error :: "string option"
  showCamera :: bool
  cameraError :: "string option"
  videoRef :: "stream option option"
  streamRef :: "stream option"
  running :: "stream set"
  platform_calls :: "platform_call list"

definition initial :: app where
  "initial =
     \<lparr>image_st = None, loading = False, result = None, error = None, showCamera = False,
      cameraError = None, videoRef = None, streamRef = None, running = {},
      platform_calls = []\<rparr>"

subsection \<open>Camera lifecycle\<close>

text \<open>The \<open>catch\<close> block of \<open>startCamera\<close>.\<close>

definition camera_failed :: "js_error \<Rightarrow> app \<Rightarrow> app" where
  "camera_failed e st =
     st\<lparr>cameraError :=
          Some (msg_camera_prefix @
                (if err_name e = ''NotAllowedError'' then msg_not_allowed
                 else if err_name e = ''NotFoundError'' then msg_not_found
                 else if err_name e = ''NotReadableError'' then msg_not_readable
                 else err_message e)),
        showCamera := False\<rparr>"

text \<open>\<open>startCamera\<close> from its call to the first \<open>await\<close>: the new state and, unless the camera
  API is missing, the stage the call is left at.\<close>

definition startCamera :: "bool \<Rightarrow> app \<Rightarrow> app \<times> start_stage option" where
  "startCamera has_mediaDevices st =
     (let st1 = st\<lparr>cameraError := None, error := None\<rparr> in
      if \<not> has_mediaDevices then (camera_failed (new_Error msg_api_unavailable) st1, None)
      else (st1, Some AwaitStream))"

text \<open>\<open>startCamera\<close> from the settlement of an \<open>await\<close> to the next \<open>await\<close> or to its end; the
  state is the one of the moment the promise settles. A stream that \<open>getUserMedia\<close> delivers
  is running from then on. A rejection at either \<open>await\<close> goes to the \<open>catch\<close> block. A
  settlement that does not fit the stage does not occur.\<close>

fun startCamera_resume :: "start_stage \<Rightarrow> settlement \<Rightarrow> app \<Rightarrow> app \<times> start_stage option" where
  "startCamera_resume AwaitStream (StreamResolved stream) st =
     (let st2 = st\<lparr>running := insert stream (running st)\<rparr> in
      case videoRef st2 of
        None \<Rightarrow> (camera_failed (new_Error msg_no_video_element) st2, None)
      | Some _ \<Rightarrow> (st2\<lparr>videoRef := Some (Some stream)\<rparr>, Some (AwaitVideo stream)))"
| "startCamera_resume (AwaitVideo stream) VideoResolved st =
     (st\<lparr>streamRef := Some stream\<rparr>, None)"
| "startCamera_resume stage (Rejected e) st = (camera_failed e st, None)"
| "startCamera_resume stage r st = (st, Some stage)"

definition stopCamera :: "app \<Rightarrow> app" where
  "stopCamera st =
     (let st1 = (case streamRef st of
                   Some s \<Rightarrow> st\<lparr>running := running st - {s}, streamRef := None\<rparr>
                 | None \<Rightarrow> st);
          st2 = (case videoRef st1 of
                   Some _ \<Rightarrow> st1\<lparr>videoRef := Some None\<rparr>
                 | None \<Rightarrow> st1)
      in st2\<lparr>showCamera := False, cameraError := None\<rparr>)"

definition handleCameraButtonClick :: "app \<Rightarrow> app" where
  "handleCameraButtonClick st =
     (if showCamera st then stopCamera st else st\<lparr>showCamera := True\<rparr>)"

text \<open>The clean-up of the second \<open>useEffect\<close>, run when the component unmounts.\<close>

definition unmount_cleanup :: "app \<Rightarrow> app" where
  "unmount_cleanup st =
     (case streamRef st of
        Some s \<Rightarrow> st\<lparr>running := running st - {s}, streamRef := None\<rparr>
      | None \<Rightarrow> st)"

definition capturePhoto :: "(canvas \<Rightarrow> string) \<Rightarrow> picture \<Rightarrow> bool \<Rightarrow> app \<Rightarrow> app" where
  "capturePhoto png frame has_context st =
     (if videoRef st = None \<or> streamRef st = None then
        st\<lparr>error := Some msg_camera_not_ready\<rparr>
      else
        (let c = createCanvas (pic_width frame) (pic_height frame);
             st1 = st\<lparr>platform_calls :=
                        platform_calls st @ [CreateCanvas (pic_width frame) (pic_height frame)]\<rparr>
         in if \<not> has_context then
              st1\<lparr>error := Some (msg_capture_failed @ err_message (new_Error msg_no_canvas_context))\<rparr>
            else
              (let imageData = toDataURL_png png (drawImage frame c);
                   st2 = st1\<lparr>platform_calls := platform_calls st1 @ [DrawImage, ToDataURL]\<rparr>
               in stopCamera (st2\<lparr>image_st := Some imageData\<rparr>))))"

subsection \<open>File upload\<close>

text \<open>\<open>handleImageUpload\<close> with its two callbacks run to their end. \<open>decoded\<close> is what the
  platform makes of the file: \<open>None\<close> when \<open>img.onload\<close> never fires (the read or the decoding
  failed), the loaded picture otherwise. The function sends nothing over the network on any
  path; the only \<open>fetch\<close> of the component is in \<open>analyzeImage\<close>, which posts the current
  image to the relay and is not part of the acquisition.\<close>

definition handleImageUpload ::
  "(canvas \<Rightarrow> string) \<Rightarrow> upload_file option \<Rightarrow> picture option \<Rightarrow> bool \<Rightarrow> app \<Rightarrow> app"
where
  "handleImageUpload png file decoded has_context st =
     (case file of
        None \<Rightarrow> st
      | Some f \<Rightarrow>
          if \<not> startsWith (file_type f) ''image/'' then
            st\<lparr>error := Some msg_not_an_image\<rparr>
          else if \<not> js_includes SUPPORTED_FORMATS (Some (file_type f)) then
            st\<lparr>error := Some msg_unsupported_format\<rparr>
          else
            (let st1 = st\<lparr>platform_calls := platform_calls st @ [ReadAsDataURL, LoadImage]\<rparr> in
             case decoded of
               None \<Rightarrow> st1
             | Some img \<Rightarrow>
                 (let c = createCanvas (pic_width img) (pic_height img);
                      st2 = st1\<lparr>platform_calls :=
                                 platform_calls st1 @ [CreateCanvas (pic_width img) (pic_height img)]\<rparr>
                  in if has_context then
                       st2\<lparr>platform_calls := platform_calls st2 @ [DrawImage, ToDataURL],
                           image_st := Some (toDataURL_png png (drawImage img c)),
                           result := None,
                           error := None\<rparr>
                     else st2)))"

subsection \<open>Events\<close>

text \<open>
  The component between two events: its state and the calls of \<open>startCamera\<close> that are in
  flight, oldest first. JavaScript runs each handler, and each stretch of \<open>startCamera\<close>
  between two \<open>await\<close>s, to its end before the next event; user actions and settlements
  come in any order.
\<close>

record session =
  component :: app
  in_flight :: "start_stage list"

definition mounted :: session where
  "mounted = \<lparr>component = initial, in_flight = []\<rparr>"

text \<open>
  After a handler has run React renders again: the \<open>video\<close> element is in the document
  exactly while \<open>showCamera\<close> holds, and \<open>videoRef\<close> follows it.
\<close>

definition render :: "app \<Rightarrow> app" where
  "render st =
     st\<lparr>videoRef := (if showCamera st
                      then (case videoRef st of None \<Rightarrow> Some None | Some v \<Rightarrow> Some v)
                      else None)\<rparr>"

text \<open>The first \<open>useEffect\<close>, which depends on \<open>showCamera\<close>: it calls \<open>startCamera\<close> and does
  not wait for it.\<close>

definition camera_effect :: "bool \<Rightarrow> session \<Rightarrow> session" where
  "camera_effect has_mediaDevices ss =
     (if showCamera (component ss) \<and> streamRef (component ss) = None then
        (case startCamera has_mediaDevices (component ss) of
           (st', None) \<Rightarrow> ss\<lparr>component := st'\<rparr>
         | (st', Some stage) \<Rightarrow> \<lparr>component = st', in_flight = in_flight ss @ [stage]\<rparr>)
      else ss)"

text \<open>What follows a handler: the render and, when \<open>showCamera\<close> has changed, the effect and
  the render its own state changes cause.\<close>

definition commit :: "bool \<Rightarrow> app \<Rightarrow> session \<Rightarrow> session" where
  "commit has_mediaDevices previous ss =
     (let ss1 = ss\<lparr>component := render (component ss)\<rparr> in
      if showCamera (component ss1) \<noteq> showCamera previous then
        (let ss2 = camera_effect has_mediaDevices ss1 in ss2\<lparr>component := render (component ss2)\<rparr>)
      else ss1)"

text \<open>The platform settles the promise of the \<open>i\<close>-th call in flight: the call goes on to
  its next \<open>await\<close>, or ends and leaves the list.\<close>

definition settle :: "nat \<Rightarrow> settlement \<Rightarrow> session \<Rightarrow> session" where
  "settle i r ss =
     (if i < length (in_flight ss) then
        (case startCamera_resume (in_flight ss ! i) r (component ss) of
           (st', None) \<Rightarrow>
             \<lparr>component = st', in_flight = take i (in_flight ss) @ drop (Suc i) (in_flight ss)\<rparr>
         | (st', Some stage) \<Rightarrow>
             \<lparr>component = st', in_flight = (in_flight ss)[i := stage]\<rparr>)
      else ss)"

text \<open>The user's actions and the platform's settlements. The buttons \<open>Tirar Foto\<close> and
  \<open>Cancelar\<close> are in the document only while \<open>showCamera\<close> holds.\<close>

datatype event =
    CameraButton
  | TakePhoto picture bool
  | CancelButton
  | Upload "upload_file option" "picture option" bool
  | Settles nat settlement

definition handle :: "(canvas \<Rightarrow> string) \<Rightarrow> event \<Rightarrow> session \<Rightarrow> session" where
  "handle png ev ss =
     (case ev of
        CameraButton \<Rightarrow> ss\<lparr>component := handleCameraButtonClick (component ss)\<rparr>
      | TakePhoto frame has_context \<Rightarrow>
          (if showCamera (component ss)
           then ss\<lparr>component := capturePhoto png frame has_context (component ss)\<rparr>
           else ss)
      | CancelButton \<Rightarrow>
          (if showCamera (component ss) then ss\<lparr>component := stopCamera (component ss)\<rparr> else ss)
      | Upload file decoded has_context \<Rightarrow>
          ss\<lparr>component := handleImageUpload png file decoded has_context (component ss)\<rparr>
      | Settles i r \<Rightarrow> settle i r ss)"

text \<open>One event. \<open>has_mediaDevices\<close> tells whether the browser has the camera API.\<close>

definition step :: "(canvas \<Rightarrow> string) \<Rightarrow> bool \<Rightarrow> event \<Rightarrow> session \<Rightarrow> session" where
  "step png has_mediaDevices ev ss =
     commit has_mediaDevices (component ss) (handle png ev ss)"

text \<open>A sequence of events, in order.\<close>

fun run :: "(canvas \<Rightarrow> string) \<Rightarrow> bool \<Rightarrow> event list \<Rightarrow> session \<Rightarrow> session" where
  "run png has_mediaDevices [] ss = ss"
| "run png has_mediaDevices (ev # rest) ss =
     run png has_mediaDevices rest (step png has_mediaDevices ev ss)"

subsection \<open>Stand-ins for the examples\<close>

text \<open>An external model that answers every request with one text, and a PNG encoder that
  gives every canvas the same base64 text. They appear in examples only.\<close>

definition answers :: "string \<Rightarrow> chat_request \<Rightarrow> call_outcome" where
  "answers t req = Resolves [Some t]"

definition sample_png :: "canvas \<Rightarrow> string" where
  "sample_png c = ''iVBORw0KGgo=''"

text \<open>Three sequences of events. In the first the camera is opened, \<open>getUserMedia\<close>
  delivers stream 7 and \<open>video.play()\<close> then rejects. In the second the user cancels while
  \<open>getUserMedia\<close> is pending, and stream 7 is delivered afterwards. In the third the user
  opens the camera, cancels and opens it again while both calls of \<open>getUserMedia\<close> are
  pending; the first call then gets stream 7 and completes, and the second gets stream 8 and
  completes.\<close>

definition start_then_play_fails :: "event list" where
  "start_then_play_fails =
     [CameraButton, Settles 0 (StreamResolved 7),
      Settles 0 (Rejected (JsError ''AbortError'' ''The play() request was interrupted''))]"

definition cancel_while_starting :: "event list" where
  "cancel_while_starting = [CameraButton, CancelButton, Settles 0 (StreamResolved 7)]"

definition two_starts :: "event list" where
  "two_starts =
     [CameraButton, CancelButton, CameraButton,
      Settles 0 (StreamResolved 7), Settles 0 VideoResolved,
      Settles 0 (StreamResolved 8), Settles 0 VideoResolved]"

section \<open>Properties of the helpers\<close>

lemma js_split_no_sep: "c \<notin> set xs \<Longrightarrow> js_split c xs = [xs]"
  by (induction xs) auto

lemma js_split_append: "c \<notin> set xs \<Longrightarrow> js_split c (xs @ c # ys) = xs # js_split c ys"
  by (induction xs) (auto split: list.splits)

lemma unsupported_message_text:
  "unsupported_message =
     ''Unsupported image format. Please use one of: image/png, image/jpeg, image/gif, image/webp''"
  by (simp add: unsupported_message_def SUPPORTED_FORMATS_def)

lemma msg_unsupported_format_text:
  "msg_unsupported_format =
     ''Formato de imagem n'' @ a_tilde @ ''o suportado. Por favor, use um dos seguintes: '' @
     ''image/png, image/jpeg, image/gif, image/webp''"
  by (simp add: msg_unsupported_format_def SUPPORTED_FORMATS_def)

lemma supported_no_comma: "m \<in> set SUPPORTED_FORMATS \<Longrightarrow> CHR '','' \<notin> set m"
  by (auto simp: SUPPORTED_FORMATS_def)

lemma supported_startsWith_image: "t \<in> set SUPPORTED_FORMATS \<Longrightarrow> startsWith t ''image/''"
  by (auto simp: SUPPORTED_FORMATS_def)

text \<open>A well-formed data URI of a supported type gives back its payload.\<close>

lemma base64Image_of_data_uri:
  assumes "m \<in> set SUPPORTED_FORMATS" and "CHR '','' \<notin> set b"
  shows "base64Image_of (''data:'' @ m @ '';base64,'' @ b) = Some b"
proof -
  have "CHR '','' \<notin> set (''data:'' @ m @ '';base64'')"
    using supported_no_comma [OF assms(1)] by simp
  then have "js_split CHR '','' ((''data:'' @ m @ '';base64'') @ CHR '','' # b)
               = (''data:'' @ m @ '';base64'') # js_split CHR '','' b"
    by (rule js_split_append)
  moreover have "js_split CHR '','' b = [b]"
    using assms(2) by (rule js_split_no_sep)
  ultimately show ?thesis
    by (simp add: base64Image_of_def js_index_def)
qed

text \<open>What the relay reads as the type of a PNG data URL, whatever the payload.\<close>

lemma mimeType_of_png_data_url:
  "mimeType_of (''data:image/png;base64,'' @ b) = Some ''image/png''"
proof -
  have "js_split CHR '';'' (''data:image/png'' @ CHR '';'' # (''base64,'' @ b))
          = ''data:image/png'' # js_split CHR '';'' (''base64,'' @ b)"
    by (rule js_split_append) simp
  then have "hd (js_split CHR '';'' (''data:image/png;base64,'' @ b)) = ''data:image/png''"
    by simp
  then show ?thesis
    by (simp add: mimeType_of_def js_index_def)
qed

section \<open>Properties of the relay\<close>

text \<open>The \<open>try\<close> block once both checks have passed.\<close>

lemma try_block_accepted:
  assumes "destructure_image v = Inr (Some (JStr s))" and "s \<noteq> []"
    and "mimeType_of s = Some m" and "m \<in> set SUPPORTED_FORMATS"
  shows "try_block openai (Some v) =
           (let req = analysis_request (Some m) (base64Image_of s) in
            case openai req of
              Rejects cause \<Rightarrow> (Inl (ApiError cause), [req])
            | Resolves choices \<Rightarrow>
                (case choices of
                   [] \<Rightarrow> (Inl TypeError, [req])
                 | c # _ \<Rightarrow>
                     (Inr (json_response
                             (JObj [(''result'', case c of None \<Rightarrow> JNull | Some t \<Rightarrow> JStr t)])
                             200),
                      [req])))"
  using assms by (simp add: try_block_def js_includes_def Let_def)

lemma calls_accepted:
  assumes "destructure_image v = Inr (Some (JStr s))" and "s \<noteq> []"
    and "mimeType_of s = Some m" and "m \<in> set SUPPORTED_FORMATS"
  shows "calls (POST openai (Some v)) = [analysis_request (Some m) (base64Image_of s)]"
  unfolding POST_def try_block_accepted [OF assms]
  by (simp add: Let_def split: call_outcome.splits list.splits)

text \<open>
  Claim C1, as it is stated, fails. A body that is the JSON value \<open>null\<close> carries no image,
  but \<open>const { image } = null\<close> throws inside the \<open>try\<close> block: the answer is the 500 of the
  \<open>catch\<close> block, not the 400 with \<open>No image provided\<close>.
\<close>

theorem analyze_null_body_counterexample:
  "destructure_image JNull = Inl TypeError
   \<and> POST (answers ''Sim'') (Some JNull) =
       \<lparr>response = \<lparr>status = 500, body = JObj [(''error'', JStr ''Failed to analyze image'')]\<rparr>,
        calls = [], logged = [TypeError]\<rparr>
   \<and> response (POST (answers ''Sim'') (Some JNull)) \<noteq>
       \<lparr>status = 400, body = JObj [(''error'', JStr ''No image provided'')]\<rparr>"
  by (simp add: POST_def try_block_def json_response_def)

text \<open>
  Claim C1, amended. Every parsed body but \<open>null\<close> has an \<open>image\<close> property to read. When
  that property reads as a falsy value (it is absent, or it is the empty string, \<open>null\<close>,
  \<open>false\<close> or zero), the handler answers 400 with \<open>{ error: "No image provided" }\<close>, sends
  nothing to the external model and logs nothing. The body \<open>null\<close> is answered 500 with
  \<open>{ error: "Failed to analyze image" }\<close>, also without a request to the external model.
\<close>

theorem analyze_missing_input:
  "(v \<noteq> JNull \<longrightarrow> (\<exists>image'. destructure_image v = Inr image'))
   \<and> (destructure_image v = Inr image' \<and> \<not> truthy image' \<longrightarrow>
        POST openai (Some v) =
          \<lparr>response = \<lparr>status = 400, body = JObj [(''error'', JStr ''No image provided'')]\<rparr>,
           calls = [], logged = []\<rparr>)
   \<and> POST openai (Some JNull) =
       \<lparr>response = \<lparr>status = 500, body = JObj [(''error'', JStr ''Failed to analyze image'')]\<rparr>,
        calls = [], logged = [TypeError]\<rparr>"
  by (cases v) (simp_all add: POST_def try_block_def json_response_def)

theorem analyze_missing_input_witness:
  "POST (\<lambda>_. Resolves [Some ''Sim'']) (Some (JObj [])) =
       \<lparr>response = \<lparr>status = 400, body = JObj [(''error'', JStr ''No image provided'')]\<rparr>,
        calls = [], logged = []\<rparr>
   \<and> POST (\<lambda>_. Resolves [Some ''Sim'']) (Some (JObj [(''image'', JStr [])])) =
       \<lparr>response = \<lparr>status = 400, body = JObj [(''error'', JStr ''No image provided'')]\<rparr>,
        calls = [], logged = []\<rparr>
   \<and> POST (\<lambda>_. Resolves [Some ''Sim'']) (Some (JArr [])) =
       \<lparr>response = \<lparr>status = 400, body = JObj [(''error'', JStr ''No image provided'')]\<rparr>,
        calls = [], logged = []\<rparr>"
  using analyze_missing_input [of "JObj []" None "\<lambda>_. Resolves [Some ''Sim'']"]
        analyze_missing_input [of "JObj [(''image'', JStr [])]" "Some (JStr [])"
                                  "\<lambda>_. Resolves [Some ''Sim'']"]
        analyze_missing_input [of "JArr []" None "\<lambda>_. Resolves [Some ''Sim'']"]
  by simp

text \<open>
  Claim C2. When the \<open>image\<close> property is a non-empty string whose type, read as
  \<open>image.split(';')[0].split(':')[1]\<close>, is not one of the four supported ones (or is
  \<open>undefined\<close>), the handler answers 400 with the message that lists \<open>image/png\<close>,
  \<open>image/jpeg\<close>, \<open>image/gif\<close> and \<open>image/webp\<close>, and sends nothing to the external model.
  The presence check comes first: the empty string, whose type is not supported either, is
  answered with \<open>No image provided\<close>. The request \<open>{ image: "data:image/bmp;base64,AAAA" }\<close>
  gets the unsupported-format answer.
\<close>

theorem analyze_unsupported_format:
  "(destructure_image v = Inr (Some (JStr s)) \<and> s \<noteq> []
      \<and> \<not> js_includes SUPPORTED_FORMATS (mimeType_of s) \<longrightarrow>
      POST openai (Some v) =
        \<lparr>response =
           \<lparr>status = 400,
            body = JObj [(''error'', JStr (''Unsupported image format. Please use one of: '' @
                                            ''image/png, image/jpeg, image/gif, image/webp''))]\<rparr>,
         calls = [], logged = []\<rparr>)
   \<and> \<not> js_includes SUPPORTED_FORMATS (mimeType_of [])
   \<and> response (POST openai (Some (JObj [(''image'', JStr [])]))) =
        \<lparr>status = 400, body = JObj [(''error'', JStr ''No image provided'')]\<rparr>
   \<and> POST openai (Some (JObj [(''image'', JStr ''data:image/bmp;base64,AAAA'')])) =
        \<lparr>response =
           \<lparr>status = 400,
            body = JObj [(''error'', JStr (''Unsupported image format. Please use one of: '' @
                                            ''image/png, image/jpeg, image/gif, image/webp''))]\<rparr>,
         calls = [], logged = []\<rparr>"
proof (intro conjI impI)
  assume "destructure_image v = Inr (Some (JStr s)) \<and> s \<noteq> []
            \<and> \<not> js_includes SUPPORTED_FORMATS (mimeType_of s)"
  then show "POST openai (Some v) =
        \<lparr>response =
           \<lparr>status = 400,
            body = JObj [(''error'', JStr (''Unsupported image format. Please use one of: '' @
                                            ''image/png, image/jpeg, image/gif, image/webp''))]\<rparr>,
         calls = [], logged = []\<rparr>"
    by (simp add: POST_def try_block_def json_response_def unsupported_message_text)
next
  show "\<not> js_includes SUPPORTED_FORMATS (mimeType_of [])"
    by (simp add: mimeType_of_def js_index_def js_includes_def)
next
  show "response (POST openai (Some (JObj [(''image'', JStr [])]))) =
            \<lparr>status = 400, body = JObj [(''error'', JStr ''No image provided'')]\<rparr>"
    by (simp add: POST_def try_block_def json_response_def)
next
  have "mimeType_of ''data:image/bmp;base64,AAAA'' = Some ''image/bmp''"
    by (simp add: mimeType_of_def js_index_def)
  then show "POST openai (Some (JObj [(''image'', JStr ''data:image/bmp;base64,AAAA'')])) =
          \<lparr>response =
             \<lparr>status = 400,
              body = JObj [(''error'', JStr (''Unsupported image format. Please use one of: '' @
                                              ''image/png, image/jpeg, image/gif, image/webp''))]\<rparr>,
           calls = [], logged = []\<rparr>"
    by (simp add: POST_def try_block_def json_response_def unsupported_message_text
                  js_includes_def SUPPORTED_FORMATS_def)
qed

theorem analyze_unsupported_format_witness:
  "mimeType_of ''image/svg+xml'' = None
   \<and> POST (\<lambda>_. Resolves [Some ''Sim'']) (Some (JObj [(''image'', JStr ''image/svg+xml'')])) =
        \<lparr>response =
           \<lparr>status = 400,
            body = JObj [(''error'', JStr (''Unsupported image format. Please use one of: '' @
                                            ''image/png, image/jpeg, image/gif, image/webp''))]\<rparr>,
         calls = [], logged = []\<rparr>"
proof -
  have m: "mimeType_of ''image/svg+xml'' = None"
    by (simp add: mimeType_of_def js_index_def)
  show ?thesis
    using analyze_unsupported_format
            [of "JObj [(''image'', JStr ''image/svg+xml'')]" "''image/svg+xml''"
                "\<lambda>_. Resolves [Some ''Sim'']"]
    by (simp add: m js_includes_def)
qed

text \<open>
  Claim C3. When the \<open>image\<close> property is a non-empty string whose type \<open>m\<close> is supported, the
  handler sends exactly one request to the external model: one user message made of the
  fixed prompt and of the image as \<open>data:m;base64,\<close> followed by the payload it read, with
  \<open>max_tokens\<close> 300. The prompt is the fixed text, whose sentences ask for a verdict from
  ingredients, certifications and visible labels, for a clear yes or no with a brief
  explanation, for the request to take the photo again when the image cannot be read, and
  for an answer in Brazilian Portuguese. For a data URI \<open>data:m;base64,b\<close> the image sent is
  the one received. When the model answers with a text, the response is 200 with that text,
  unchanged, as \<open>result\<close>, and nothing is logged.
\<close>

theorem analyze_forwards_image:
  assumes "destructure_image v = Inr (Some (JStr s))" and "s \<noteq> []"
    and "mimeType_of s = Some m" and "m \<in> set SUPPORTED_FORMATS"
  shows "calls (POST openai (Some v)) =
           [\<lparr>model = ''gpt-4o'',
             messages =
               [\<lparr>role = ''user'',
                 content =
                   [TextPart prompt,
                    ImageUrlPart (''data:'' @ m @ '';base64,'' @ js_template (base64Image_of s))]\<rparr>],
             max_tokens = 300\<rparr>]
         \<and> prompt =
             ''Analyze this product image and tell me if it's vegan. '' @
             ''Consider ingredients, certifications, and any visible labels. '' @
             ''Respond with a clear 'Yes' or 'No' followed by a brief explanation. '' @
             ''If you are not able to read the image content please be clear about it '' @
             ''and the only thing you should say it's to take the photo again. '' @
             ''The answer should always be in brazilian portuguese''
         \<and> (\<forall>b. s = ''data:'' @ m @ '';base64,'' @ b \<and> CHR '','' \<notin> set b \<longrightarrow>
                ''data:'' @ m @ '';base64,'' @ js_template (base64Image_of s) = s)
         \<and> (\<forall>t more.
               openai (analysis_request (Some m) (base64Image_of s)) = Resolves (Some t # more) \<longrightarrow>
               response (POST openai (Some v)) =
                 \<lparr>status = 200, body = JObj [(''result'', JStr t)]\<rparr>
               \<and> logged (POST openai (Some v)) = [])"
proof (intro conjI allI impI)
  show "calls (POST openai (Some v)) =
           [\<lparr>model = ''gpt-4o'',
             messages =
               [\<lparr>role = ''user'',
                 content =
                   [TextPart prompt,
                    ImageUrlPart (''data:'' @ m @ '';base64,'' @ js_template (base64Image_of s))]\<rparr>],
             max_tokens = 300\<rparr>]"
    using calls_accepted [OF assms] by (simp add: analysis_request_def js_template_def)
next
  show "prompt =
             ''Analyze this product image and tell me if it's vegan. '' @
             ''Consider ingredients, certifications, and any visible labels. '' @
             ''Respond with a clear 'Yes' or 'No' followed by a brief explanation. '' @
             ''If you are not able to read the image content please be clear about it '' @
             ''and the only thing you should say it's to take the photo again. '' @
             ''The answer should always be in brazilian portuguese''"
    by (simp add: prompt_def)
next
  fix b
  assume "s = ''data:'' @ m @ '';base64,'' @ b \<and> CHR '','' \<notin> set b"
  then have s: "s = ''data:'' @ m @ '';base64,'' @ b" and b: "CHR '','' \<notin> set b"
    by simp_all
  have "base64Image_of s = Some b"
    unfolding s using assms(4) b by (rule base64Image_of_data_uri)
  then show "''data:'' @ m @ '';base64,'' @ js_template (base64Image_of s) = s"
    by (simp add: js_template_def s)
next
  fix t more
  assume r: "openai (analysis_request (Some m) (base64Image_of s)) = Resolves (Some t # more)"
  show "response (POST openai (Some v)) = \<lparr>status = 200, body = JObj [(''result'', JStr t)]\<rparr>"
    unfolding POST_def try_block_accepted [OF assms]
    by (simp add: Let_def r json_response_def)
  show "logged (POST openai (Some v)) = []"
    unfolding POST_def try_block_accepted [OF assms]
    by (simp add: Let_def r)
qed

theorem analyze_forwards_image_witness:
  "calls (POST (\<lambda>_. Resolves [Some ''Sim''])
            (Some (JObj [(''image'', JStr ''data:image/jpeg;base64,AAAA'')])))
     = [\<lparr>model = ''gpt-4o'',
         messages =
           [\<lparr>role = ''user'',
             content = [TextPart prompt, ImageUrlPart ''data:image/jpeg;base64,AAAA'']\<rparr>],
         max_tokens = 300\<rparr>]
   \<and> response (POST (\<lambda>_. Resolves [Some ''Sim''])
                 (Some (JObj [(''image'', JStr ''data:image/jpeg;base64,AAAA'')])))
     = \<lparr>status = 200, body = JObj [(''result'', JStr ''Sim'')]\<rparr>"
proof -
  have d: "destructure_image (JObj [(''image'', JStr ''data:image/jpeg;base64,AAAA'')])
             = Inr (Some (JStr ''data:image/jpeg;base64,AAAA''))"
    by simp
  have n: "''data:image/jpeg;base64,AAAA'' \<noteq> []" by simp
  have m: "mimeType_of ''data:image/jpeg;base64,AAAA'' = Some ''image/jpeg''"
    by (simp add: mimeType_of_def js_index_def)
  have f: "''image/jpeg'' \<in> set SUPPORTED_FORMATS"
    by (simp add: SUPPORTED_FORMATS_def)
  have b: "base64Image_of ''data:image/jpeg;base64,AAAA'' = Some ''AAAA''"
    by (simp add: base64Image_of_def js_index_def)
  show ?thesis
    using analyze_forwards_image [OF d n m f, of "\<lambda>_. Resolves [Some ''Sim'']"]
    by (simp add: b js_template_def)
qed

text \<open>
  Claim C4. When both checks have passed and the external call fails, by rejecting with some
  cause or by resolving to a completion without a choice, the handler answers 500 with
  \<open>{ error: "Failed to analyze image" }\<close>, whatever the cause was, and logs what was thrown;
  the one request it sent is the only one.
\<close>

theorem analyze_external_failure:
  assumes "destructure_image v = Inr (Some (JStr s))" and "s \<noteq> []"
    and "mimeType_of s = Some m" and "m \<in> set SUPPORTED_FORMATS"
    and "openai (analysis_request (Some m) (base64Image_of s)) = Rejects cause
         \<or> openai (analysis_request (Some m) (base64Image_of s)) = Resolves []"
  shows "response (POST openai (Some v)) =
           \<lparr>status = 500, body = JObj [(''error'', JStr ''Failed to analyze image'')]\<rparr>
         \<and> logged (POST openai (Some v)) =
             [case openai (analysis_request (Some m) (base64Image_of s)) of
                Rejects c \<Rightarrow> ApiError c
              | Resolves _ \<Rightarrow> TypeError]
         \<and> calls (POST openai (Some v)) = [analysis_request (Some m) (base64Image_of s)]"
  using assms(5)
  unfolding POST_def try_block_accepted [OF assms(1-4)]
  by (auto simp: Let_def json_response_def)

theorem analyze_external_failure_witness:
  "response (POST (\<lambda>_. Rejects ''ECONNRESET'')
               (Some (JObj [(''image'', JStr ''data:image/png;base64,AAAA'')])))
     = \<lparr>status = 500, body = JObj [(''error'', JStr ''Failed to analyze image'')]\<rparr>
   \<and> logged (POST (\<lambda>_. Rejects ''ECONNRESET'')
               (Some (JObj [(''image'', JStr ''data:image/png;base64,AAAA'')])))
     = [ApiError ''ECONNRESET'']
   \<and> response (POST (\<lambda>_. Resolves [])
               (Some (JObj [(''image'', JStr ''data:image/png;base64,AAAA'')])))
     = \<lparr>status = 500, body = JObj [(''error'', JStr ''Failed to analyze image'')]\<rparr>
   \<and> logged (POST (\<lambda>_. Resolves [])
               (Some (JObj [(''image'', JStr ''data:image/png;base64,AAAA'')])))
     = [TypeError]"
proof -
  have d: "destructure_image (JObj [(''image'', JStr ''data:image/png;base64,AAAA'')])
             = Inr (Some (JStr ''data:image/png;base64,AAAA''))"
    by simp
  have n: "''data:image/png;base64,AAAA'' \<noteq> []" by simp
  have m: "mimeType_of ''data:image/png;base64,AAAA'' = Some ''image/png''"
    by (simp add: mimeType_of_def js_index_def)
  have f: "''image/png'' \<in> set SUPPORTED_FORMATS"
    by (simp add: SUPPORTED_FORMATS_def)
  have r1: "(\<lambda>_. Rejects ''ECONNRESET'')
             (analysis_request (Some ''image/png'') (base64Image_of ''data:image/png;base64,AAAA''))
             = Rejects ''ECONNRESET''
           \<or> (\<lambda>_. Rejects ''ECONNRESET'')
             (analysis_request (Some ''image/png'') (base64Image_of ''data:image/png;base64,AAAA''))
             = Resolves []"
    by simp
  have r2: "(\<lambda>_. Resolves [])
             (analysis_request (Some ''image/png'') (base64Image_of ''data:image/png;base64,AAAA''))
             = Rejects ''ECONNRESET''
           \<or> (\<lambda>_. Resolves [])
             (analysis_request (Some ''image/png'') (base64Image_of ''data:image/png;base64,AAAA''))
             = Resolves []"
    by simp
  show ?thesis
    using analyze_external_failure [OF d n m f r1] analyze_external_failure [OF d n m f r2]
    by simp
qed

text \<open>
  Claim C10. When the body is not valid JSON, and when the \<open>image\<close> property is a truthy
  value that is not a string (a non-zero number, \<open>true\<close>, an array or an object, on which
  \<open>split\<close> is not a function), the handler answers 500 with
  \<open>{ error: "Failed to analyze image" }\<close> and has sent nothing to the external model.
\<close>

theorem analyze_fails_before_call:
  "POST openai None =
     \<lparr>response = \<lparr>status = 500, body = JObj [(''error'', JStr ''Failed to analyze image'')]\<rparr>,
      calls = [], logged = [SyntaxError]\<rparr>
   \<and> (destructure_image v = Inr (Some x) \<and> truthy (Some x) \<and> (\<forall>s. x \<noteq> JStr s) \<longrightarrow>
        POST openai (Some v) =
          \<lparr>response = \<lparr>status = 500, body = JObj [(''error'', JStr ''Failed to analyze image'')]\<rparr>,
           calls = [], logged = [TypeError]\<rparr>)"
  by (cases x) (auto simp: POST_def try_block_def json_response_def)

theorem analyze_fails_before_call_witness:
  "POST (\<lambda>_. Resolves [Some ''Sim'']) (Some (JObj [(''image'', JNum 42)])) =
     \<lparr>response = \<lparr>status = 500, body = JObj [(''error'', JStr ''Failed to analyze image'')]\<rparr>,
      calls = [], logged = [TypeError]\<rparr>
   \<and> POST (\<lambda>_. Resolves [Some ''Sim'']) (Some (JObj [(''image'', JArr [])])) =
     \<lparr>response = \<lparr>status = 500, body = JObj [(''error'', JStr ''Failed to analyze image'')]\<rparr>,
      calls = [], logged = [TypeError]\<rparr>"
  using analyze_fails_before_call
          [of "\<lambda>_. Resolves [Some ''Sim'']" "JObj [(''image'', JNum 42)]" "JNum 42"]
        analyze_fails_before_call
          [of "\<lambda>_. Resolves [Some ''Sim'']" "JObj [(''image'', JArr [])]" "JArr []"]
  by simp

section \<open>Properties of the file upload\<close>

text \<open>
  Claim C5. A selected file whose declared type does not start with \<open>image/\<close> (such as
  \<open>text/plain\<close>) is rejected with the message that asks for an image file; a file whose type
  starts with \<open>image/\<close> but is not one of the four supported ones is rejected with the message
  that lists the four. In both cases only the error message changes: no file is read, no
  canvas is created, the current image stays, whatever the platform would have decoded. The
  test on \<open>image/\<close> comes first: \<open>text/plain\<close>, which is not a supported type either, gets the
  first message.
\<close>

theorem upload_rejects_unsupported:
  "(\<not> startsWith (file_type f) ''image/'' \<longrightarrow>
      handleImageUpload png (Some f) decoded has_context st =
        st\<lparr>error := Some ''Por favor, envie um arquivo de imagem''\<rparr>)
   \<and> (startsWith (file_type f) ''image/'' \<and> file_type f \<notin> set SUPPORTED_FORMATS \<longrightarrow>
        handleImageUpload png (Some f) decoded has_context st =
          st\<lparr>error :=
               Some (''Formato de imagem n'' @ a_tilde @
                     ''o suportado. Por favor, use um dos seguintes: '' @
                     ''image/png, image/jpeg, image/gif, image/webp'')\<rparr>)
   \<and> (\<not> startsWith (file_type f) ''image/'' \<or> file_type f \<notin> set SUPPORTED_FORMATS \<longrightarrow>
        platform_calls (handleImageUpload png (Some f) decoded has_context st) = platform_calls st
        \<and> image_st (handleImageUpload png (Some f) decoded has_context st) = image_st st)
   \<and> ''text/plain'' \<notin> set SUPPORTED_FORMATS
   \<and> handleImageUpload png (Some \<lparr>file_type = ''text/plain''\<rparr>) decoded has_context st =
        st\<lparr>error := Some ''Por favor, envie um arquivo de imagem''\<rparr>"
  by (simp add: handleImageUpload_def js_includes_def msg_not_an_image_def
                msg_unsupported_format_text)
     (simp add: SUPPORTED_FORMATS_def)

theorem upload_rejects_unsupported_witness:
  "handleImageUpload (\<lambda>c. []) (Some \<lparr>file_type = ''image/bmp''\<rparr>) None True initial =
     initial\<lparr>error :=
       Some (''Formato de imagem n'' @ a_tilde @
             ''o suportado. Por favor, use um dos seguintes: '' @
             ''image/png, image/jpeg, image/gif, image/webp'')\<rparr>
   \<and> handleImageUpload (\<lambda>c. []) (Some \<lparr>file_type = ''application/pdf''\<rparr>) None True initial =
     initial\<lparr>error := Some ''Por favor, envie um arquivo de imagem''\<rparr>"
  using upload_rejects_unsupported
          [of "\<lparr>file_type = ''image/bmp''\<rparr>" "\<lambda>c. []" None True initial]
        upload_rejects_unsupported
          [of "\<lparr>file_type = ''application/pdf''\<rparr>" "\<lambda>c. []" None True initial]
  by (simp add: SUPPORTED_FORMATS_def)

text \<open>
  Claim C6, as it is stated, fails. There is no \<open>img.onerror\<close> and no \<open>else\<close> to \<open>if (ctx)\<close>:
  a file of declared type \<open>image/png\<close> that the platform does not decode is read and loaded
  and then nothing more happens, and a picture for which no canvas context is to be had gets
  its canvas and nothing more. In both cases no image is stored and no error is set.
\<close>

theorem upload_undecodable_counterexample:
  "file_type \<lparr>file_type = ''image/png''\<rparr> \<in> set SUPPORTED_FORMATS
   \<and> handleImageUpload sample_png (Some \<lparr>file_type = ''image/png''\<rparr>) None True initial
       = initial\<lparr>platform_calls := [ReadAsDataURL, LoadImage]\<rparr>
   \<and> image_st (handleImageUpload sample_png (Some \<lparr>file_type = ''image/png''\<rparr>) None True initial)
       = None
   \<and> error (handleImageUpload sample_png (Some \<lparr>file_type = ''image/png''\<rparr>) None True initial)
       = None
   \<and> handleImageUpload sample_png (Some \<lparr>file_type = ''image/png''\<rparr>)
         (Some \<lparr>pic_width = 100, pic_height = 100, pic_pixels = []\<rparr>) False initial
       = initial\<lparr>platform_calls := [ReadAsDataURL, LoadImage, CreateCanvas 100 100]\<rparr>
   \<and> image_st (handleImageUpload sample_png (Some \<lparr>file_type = ''image/png''\<rparr>)
         (Some \<lparr>pic_width = 100, pic_height = 100, pic_pixels = []\<rparr>) False initial)
       = None"
  by (simp add: handleImageUpload_def js_includes_def SUPPORTED_FORMATS_def initial_def Let_def)

text \<open>
  Claim C6, amended. A selected file of one of the four supported types, which the platform
  decodes to a picture with pixels and for which a canvas context is available, becomes the
  current image as a PNG data URL: the encoding of a canvas of the picture's natural width
  and height on which the picture was drawn. The result depends on the declared type in no
  other way, and the relay reads its type as \<open>image/png\<close>.
\<close>

theorem upload_normalizes_to_png:
  assumes "file_type f \<in> set SUPPORTED_FORMATS"
    and "0 < pic_width img" and "0 < pic_height img"
  shows "handleImageUpload png (Some f) (Some img) True st =
           st\<lparr>platform_calls :=
                 platform_calls st @
                 [ReadAsDataURL, LoadImage, CreateCanvas (pic_width img) (pic_height img),
                  DrawImage, ToDataURL],
               image_st :=
                 Some (''data:image/png;base64,'' @
                       png \<lparr>canvas_width = pic_width img, canvas_height = pic_height img,
                            canvas_drawn = [img]\<rparr>),
               result := None,
               error := None\<rparr>
         \<and> (\<forall>u. image_st (handleImageUpload png (Some f) (Some img) True st) = Some u \<longrightarrow>
                mimeType_of u = Some ''image/png'')"
proof -
  have eq: "handleImageUpload png (Some f) (Some img) True st =
           st\<lparr>platform_calls :=
                 platform_calls st @
                 [ReadAsDataURL, LoadImage, CreateCanvas (pic_width img) (pic_height img),
                  DrawImage, ToDataURL],
               image_st :=
                 Some (''data:image/png;base64,'' @
                       png \<lparr>canvas_width = pic_width img, canvas_height = pic_height img,
                            canvas_drawn = [img]\<rparr>),
               result := None,
               error := None\<rparr>"
    using assms supported_startsWith_image [OF assms(1)]
    by (simp add: handleImageUpload_def js_includes_def Let_def toDataURL_png_def
                  drawImage_def createCanvas_def)
  show ?thesis
    unfolding eq
    using mimeType_of_png_data_url
            [of "png \<lparr>canvas_width = pic_width img, canvas_height = pic_height img,
                         canvas_drawn = [img]\<rparr>"]
    by simp
qed

theorem upload_normalizes_to_png_witness:
  "image_st (handleImageUpload (\<lambda>c. ''iVBORw0KGgo='') (Some \<lparr>file_type = ''image/jpeg''\<rparr>)
               (Some \<lparr>pic_width = 100, pic_height = 100, pic_pixels = []\<rparr>) True initial)
     = Some ''data:image/png;base64,iVBORw0KGgo=''"
proof -
  have t: "file_type \<lparr>file_type = ''image/jpeg''\<rparr> \<in> set SUPPORTED_FORMATS"
    by (simp add: SUPPORTED_FORMATS_def)
  have w: "0 < pic_width \<lparr>pic_width = 100, pic_height = 100, pic_pixels = []\<rparr>"
    and h: "0 < pic_height \<lparr>pic_width = 100, pic_height = 100, pic_pixels = []\<rparr>"
    by simp_all
  show ?thesis
    using upload_normalizes_to_png [OF t w h, of "\<lambda>c. ''iVBORw0KGgo=''" initial]
    by simp
qed

section \<open>Properties of the camera\<close>

subsection \<open>Closing the camera\<close>

lemma stopCamera_camera:
  "streamRef (stopCamera st) = None"
  "showCamera (stopCamera st) = False"
  "cameraError (stopCamera st) = None"
  "running (stopCamera st) = running st - set_option (streamRef st)"
  "videoRef (stopCamera st) = map_option (\<lambda>_. None) (videoRef st)"
  by (cases "streamRef st"; cases "videoRef st"; simp add: stopCamera_def)+

text \<open>
  Claim C7, as it is stated, fails. With no stream held, \<open>stopCamera\<close> still closes the
  camera view and clears the camera error: it changes the state in which the view is open
  and the stream has not arrived yet, and the state a failed start leaves behind.
\<close>

theorem stopCamera_no_session_counterexample:
  "streamRef (initial\<lparr>showCamera := True, videoRef := Some None\<rparr>) = None
   \<and> stopCamera (initial\<lparr>showCamera := True, videoRef := Some None\<rparr>)
       \<noteq> initial\<lparr>showCamera := True, videoRef := Some None\<rparr>
   \<and> streamRef (initial\<lparr>cameraError := Some (msg_camera_prefix @ msg_not_found)\<rparr>) = None
   \<and> stopCamera (initial\<lparr>cameraError := Some (msg_camera_prefix @ msg_not_found)\<rparr>)
       \<noteq> initial\<lparr>cameraError := Some (msg_camera_prefix @ msg_not_found)\<rparr>"
proof -
  have a: "showCamera (stopCamera (initial\<lparr>showCamera := True, videoRef := Some None\<rparr>))
             \<noteq> showCamera (initial\<lparr>showCamera := True, videoRef := Some None\<rparr>)"
    by (simp add: stopCamera_camera)
  have b: "cameraError (stopCamera (initial\<lparr>cameraError := Some (msg_camera_prefix @ msg_not_found)\<rparr>))
             \<noteq> cameraError (initial\<lparr>cameraError := Some (msg_camera_prefix @ msg_not_found)\<rparr>)"
    by (simp add: stopCamera_camera)
  from a b show ?thesis
    by (auto simp: initial_def)
qed

text \<open>The first state of the counterexample is the component after a click on the camera
  button, while \<open>getUserMedia\<close> is pending and \<open>Cancelar\<close> can be clicked; the second is the one
  a start leaves behind when no camera is found.\<close>

lemmas session_defs =
  step_def commit_def handle_def settle_def camera_effect_def render_def startCamera_def
  handleCameraButtonClick_def stopCamera_def camera_failed_def mounted_def initial_def
  new_Error_def Let_def

lemma requesting_state:
  "step png True CameraButton mounted =
     \<lparr>component = initial\<lparr>showCamera := True, videoRef := Some None\<rparr>,
      in_flight = [AwaitStream]\<rparr>"
  by (simp add: session_defs)

lemma failed_open_state:
  "run png True
     [CameraButton,
      Settles 0 (Rejected (JsError ''NotFoundError'' ''Requested device not found''))] mounted
   = \<lparr>component = initial\<lparr>cameraError := Some (msg_camera_prefix @ msg_not_found)\<rparr>,
      in_flight = []\<rparr>"
  by (simp add: session_defs)

text \<open>
  Claim C7, amended. \<open>stopCamera\<close> is idempotent: a second call changes nothing. It has no
  failing path. With no stream held it stops nothing and changes nothing but \<open>showCamera\<close>
  (set to false), \<open>cameraError\<close> (cleared) and the \<open>srcObject\<close> of a mounted \<open>video\<close>
  element (cleared); so it leaves the state as it is exactly when the camera view is
  already closed and no camera error is set.
\<close>

theorem stopCamera_idempotent:
  "stopCamera (stopCamera st) = stopCamera st
   \<and> (streamRef st = None \<longrightarrow>
        stopCamera st =
          st\<lparr>videoRef := map_option (\<lambda>_. None) (videoRef st),
             showCamera := False, cameraError := None\<rparr>)
   \<and> (streamRef st = None \<and> \<not> showCamera st \<and> cameraError st = None
        \<and> (videoRef st = None \<or> videoRef st = Some None) \<longrightarrow>
        stopCamera st = st)"
  by (cases "streamRef st"; cases "videoRef st") (auto simp: stopCamera_def)

theorem stopCamera_idempotent_witness:
  "stopCamera initial = initial"
  using stopCamera_idempotent [of initial] by (simp add: initial_def)

subsection \<open>The handle over a session\<close>

lemma run_append:
  "run png has_mediaDevices (xs @ ys) ss =
     run png has_mediaDevices ys (run png has_mediaDevices xs ss)"
  by (induction xs arbitrary: ss) simp_all

lemma run_start_then_play_fails:
  "run png True start_then_play_fails mounted =
     \<lparr>component =
        initial\<lparr>cameraError := Some (msg_camera_prefix @ ''The play() request was interrupted''),
                running := {7}\<rparr>,
      in_flight = []\<rparr>"
  by (simp add: start_then_play_fails_def session_defs)

lemma run_cancel_while_starting:
  "run png True cancel_while_starting mounted =
     \<lparr>component =
        initial\<lparr>cameraError := Some (msg_camera_prefix @ msg_no_video_element),
                running := {7}\<rparr>,
      in_flight = []\<rparr>"
  by (simp add: cancel_while_starting_def session_defs)

lemma run_two_starts:
  "run png True two_starts mounted =
     \<lparr>component =
        initial\<lparr>showCamera := True, videoRef := Some (Some 8), streamRef := Some 8,
                running := {7, 8}\<rparr>,
      in_flight = []\<rparr>"
  by (simp add: two_starts_def session_defs insert_commute)

text \<open>
  Claim C8 does not hold of the code. The \<open>catch\<close> block of \<open>startCamera\<close> closes the view and
  sets the error, but stops no track, and a call whose view was cancelled goes on when its
  promise settles. So after a start that fails once \<open>getUserMedia\<close> has delivered a stream,
  and after a cancel that came before the stream, the handle is null while the stream is
  still running: the device is held and nothing can release it. With two calls in flight
  the handle is set to the first stream and then to the second without the first being
  stopped: two streams run at once, and the cancel and the unmount clean-up that follow stop
  only the one the handle names. \<open>stopCamera\<close> and the unmount clean-up do stop the tracks
  of the stream they find in the handle.
\<close>

theorem camera_start_leaks_stream:
  "streamRef (component (run sample_png True start_then_play_fails mounted)) = None
   \<and> \<not> showCamera (component (run sample_png True start_then_play_fails mounted))
   \<and> running (component (run sample_png True start_then_play_fails mounted)) = {7}
   \<and> streamRef (component (run sample_png True cancel_while_starting mounted)) = None
   \<and> \<not> showCamera (component (run sample_png True cancel_while_starting mounted))
   \<and> running (component (run sample_png True cancel_while_starting mounted)) = {7}
   \<and> streamRef (component (run sample_png True two_starts mounted)) = Some 8
   \<and> running (component (run sample_png True two_starts mounted)) = {7, 8}
   \<and> streamRef (component (run sample_png True (two_starts @ [CancelButton]) mounted)) = None
   \<and> running (component (run sample_png True (two_starts @ [CancelButton]) mounted)) = {7}
   \<and> streamRef (unmount_cleanup (component (run sample_png True two_starts mounted))) = None
   \<and> running (unmount_cleanup (component (run sample_png True two_starts mounted))) = {7}"
proof -
  have d: "{7, 8} - {8} = ({7} :: stream set)"
    by auto
  have c: "run sample_png True (two_starts @ [CancelButton]) mounted =
             \<lparr>component = initial\<lparr>running := {7}\<rparr>, in_flight = []\<rparr>"
    unfolding run_append run_two_starts
    by (simp add: session_defs d)
  show ?thesis
    unfolding c run_start_then_play_fails run_cancel_while_starting run_two_starts
    by (simp add: initial_def unmount_cleanup_def d)
qed

subsection \<open>Capturing a frame\<close>



end
